theory Spec2Isabelle
  imports Main
begin

section \<open>Data model (shared/schema.ts)\<close>

text \<open>
  Monetary columns are \<^verbatim>\<open>decimal(_, 2)\<close>; the storage layer reads them with
  \<^verbatim>\<open>Number\<close> and writes them back with \<^verbatim>\<open>toFixed(2)\<close>. An amount is held here as
  an integer number of hundredths, on which both conversions are the identity.
  Binary floating-point rounding of the JavaScript numbers is outside this model.
\<close>

type_synonym money = int

text \<open>
  A JavaScript \<^verbatim>\<open>Date\<close>, as the code observes it: \<^verbatim>\<open>getFullYear()\<close>,
  \<^verbatim>\<open>getMonth()\<close> (0 to 11), \<^verbatim>\<open>getDate()\<close> and the time within the day, all read in
  one time zone. Two dates compare as their instants do.
\<close>

record jsdate =
  getFullYear :: int
  getMonth :: int
  getDate :: int
  timeOfDay :: int

definition date_le :: "jsdate \<Rightarrow> jsdate \<Rightarrow> bool" where
  "date_le a b \<longleftrightarrow>
     getFullYear a < getFullYear b \<or>
     (getFullYear a = getFullYear b \<and>
       (getMonth a < getMonth b \<or>
        (getMonth a = getMonth b \<and>
          (getDate a < getDate b \<or>
           (getDate a = getDate b \<and> timeOfDay a \<le> timeOfDay b)))))"

record rent_payment =
  rp_id :: int
  rp_userId :: int
  rp_tenantId :: int
  rp_shopId :: int
  rp_month :: int
  rp_year :: int
  rp_amount :: money
  rp_paidAmount :: money
  rp_pendingAmount :: money
  rp_status :: string
  rp_paymentDate :: "jsdate option"
  rp_notes :: "string option"

record bank_account =
  a_id :: int
  a_userId :: int
  a_initialBalance :: money
  a_currentBalance :: money

record transaction_row =
  t_id :: int
  t_userId :: int
  t_accountId :: "int option"
  t_tenantId :: "int option"
  t_shopId :: "int option"
  t_amount :: money
  t_type :: string
  t_context :: string
  t_transactionDate :: "jsdate option"

record transfer =
  tr_id :: int
  tr_userId :: int
  tr_fromAccountId :: int
  tr_toAccountId :: int
  tr_amount :: money

record shop =
  s_id :: int
  s_userId :: int
  s_monthlyRent :: money
  s_isOccupied :: bool
  s_tenantId :: "int option"
  s_allocated_at :: "jsdate option"

text \<open>Categories, buildings and tenants: only the key and the owner matter here.\<close>

record owned_row =
  o_id :: int
  o_userId :: int

record tenant_shop =
  ts_id :: int
  ts_tenantId :: int
  ts_shopId :: int

text \<open>
  The relational store: one list of rows per table, in insertion order, and the
  \<^verbatim>\<open>serial\<close> sequence of each table the modelled operations insert into.
\<close>

record db =
  bankAccounts :: "bank_account list"
  categories :: "owned_row list"
  buildings :: "owned_row list"
  tenants :: "owned_row list"
  shops :: "shop list"
  tenantShops :: "tenant_shop list"
  transactions :: "transaction_row list"
  transfers :: "transfer list"
  rentPayments :: "rent_payment list"
  shops_seq :: int
  transactions_seq :: int
  transfers_seq :: int
  rentPayments_seq :: int

section \<open>Rent-period records (server/storage.ts)\<close>

text \<open>
  The query every rent operation starts with: the rows of one user, tenant, shop,
  month and year, in table order (\<^verbatim>\<open>existing\<close> in the source).
\<close>

definition selectRentPayments :: "int \<Rightarrow> int \<Rightarrow> int \<Rightarrow> int \<Rightarrow> int \<Rightarrow> db \<Rightarrow> rent_payment list" where
  "selectRentPayments userId tenantId shopId month year d =
     filter (\<lambda>r. rp_userId r = userId \<and> rp_tenantId r = tenantId \<and> rp_shopId r = shopId \<and>
                 rp_month r = month \<and> rp_year r = year) (rentPayments d)"




text \<open>What the storage layer throws, with the message the source gives it.\<close>

datatype error =
    AccountNotFound
  | InvalidTransactionType
  | TransactionNotFound
  | TransactionWithoutAccount
  | AccountsNotFound
  | InsufficientBalance
  | TransferNotFound
  | Unauthorized
  | NotNullViolation
  | DuplicateKey
  | InvalidColumnValue
  | ShopRowUndefined
  | InvalidBackup string



text \<open>
  \<^verbatim>\<open>recalculateAllPendingRents(userId)\<close>. The rows of the user are grouped by
  (tenant, shop, month, year), the groups kept in order of their first row; a group
  remembers the amount of its first row. The source's key is the four numbers joined by
  dashes, which determines them. All rows are read before any is written.
\<close>

type_synonym rent_group = "(int \<times> int \<times> int \<times> int) \<times> rent_payment list \<times> money"

fun add_to_group :: "rent_payment \<Rightarrow> rent_group list \<Rightarrow> rent_group list" where
  "add_to_group p [] =
     [((rp_tenantId p, rp_shopId p, rp_month p, rp_year p), [p], rp_amount p)]"
| "add_to_group p ((k, ps, a) # gs) =
     (if k = (rp_tenantId p, rp_shopId p, rp_month p, rp_year p)
      then (k, ps @ [p], a) # gs
      else (k, ps, a) # add_to_group p gs)"

definition grouped :: "rent_payment list \<Rightarrow> rent_group list" where
  "grouped allRentPayments = foldl (\<lambda>g p. add_to_group p g) [] allRentPayments"

definition setPending :: "money \<Rightarrow> int \<Rightarrow> db \<Rightarrow> db" where
  "setPending pending pid d =
     d\<lparr>rentPayments :=
         map (\<lambda>r. if rp_id r = pid
                  then r\<lparr>rp_pendingAmount := pending,
                         rp_status := (if pending = 0 then ''paid'' else ''pending'')\<rparr>
                  else r)
             (rentPayments d)\<rparr>"

definition recalculateGroup :: "rent_group \<Rightarrow> db \<Rightarrow> db" where
  "recalculateGroup g d =
     (case g of (k, payments, amount) \<Rightarrow>
        (let totalPaid = sum_list (map rp_paidAmount payments);
             pending = max (amount - totalPaid) 0
         in fold (\<lambda>p. setPending pending (rp_id p)) payments d))"

definition recalculateAllPendingRents :: "int \<Rightarrow> db \<Rightarrow> db" where
  "recalculateAllPendingRents userId d =
     fold recalculateGroup (grouped (filter (\<lambda>p. rp_userId p = userId) (rentPayments d))) d"

section \<open>Rent accrual (server/storage.ts)\<close>

text \<open>The row the three accrual loops insert for a missing period.\<close>

definition insertPendingRent :: "int \<Rightarrow> int \<Rightarrow> int \<Rightarrow> int \<Rightarrow> int \<Rightarrow> money \<Rightarrow> db \<Rightarrow> db" where
  "insertPendingRent userId tenantId shopId m y monthlyRent d =
     d\<lparr>rentPayments := rentPayments d @
         [\<lparr>rp_id = rentPayments_seq d, rp_userId = userId, rp_tenantId = tenantId,
           rp_shopId = shopId, rp_month = m, rp_year = y, rp_amount = monthlyRent,
           rp_paidAmount = 0, rp_pendingAmount = monthlyRent, rp_status = ''pending'',
           rp_paymentDate = None, rp_notes = None\<rparr>],
       rentPayments_seq := rentPayments_seq d + 1\<rparr>"

text \<open>
  The \<^verbatim>\<open>while (y < lastYear || (y === lastYear && m <= lastMonth))\<close> loop, which
  \<^verbatim>\<open>createShop\<close>, \<^verbatim>\<open>updateShop\<close> and
  \<^verbatim>\<open>createMissingRentPaymentsForAllocatedShops\<close> each spell out with the same body.
\<close>

function accrualLoop ::
    "int \<Rightarrow> int \<Rightarrow> int \<Rightarrow> money \<Rightarrow> int \<Rightarrow> int \<Rightarrow> int \<Rightarrow> int \<Rightarrow> db \<Rightarrow> db" where
  "accrualLoop userId tenantId shopId monthlyRent lastYear lastMonth y m d =
     (if y < lastYear \<or> (y = lastYear \<and> m \<le> lastMonth)
      then (let d' = (if selectRentPayments userId tenantId shopId m y d = []
                      then insertPendingRent userId tenantId shopId m y monthlyRent d
                      else d)
            in if m + 1 > 12
               then accrualLoop userId tenantId shopId monthlyRent lastYear lastMonth (y + 1) 1 d'
               else accrualLoop userId tenantId shopId monthlyRent lastYear lastMonth y (m + 1) d')
      else d)"
  by pat_completeness auto
termination
  by (relation "measure (\<lambda>(userId, tenantId, shopId, monthlyRent, lastYear, lastMonth, y, m, d).
         nat ((lastYear - y + 1) * 13 + 13 - min m 13))") auto

declare accrualLoop.simps [simp del]

text \<open>The last period to generate, as the daily sweep computes it.\<close>

definition lastPeriod :: "jsdate \<Rightarrow> int \<times> int" where
  "lastPeriod now =
     (let currentYear = getFullYear now;
          currentMonth = getMonth now + 1;
          lastYear = currentYear;
          lastMonth = currentMonth - 1
      in if lastMonth = 0 then (currentYear - 1, 12) else (lastYear, lastMonth))"

text \<open>The same, as \<^verbatim>\<open>createShop\<close> computes it, with its branch on the 1st of the month.\<close>

definition lastPeriod_createShop :: "jsdate \<Rightarrow> int \<times> int" where
  "lastPeriod_createShop now =
     (if getDate now = 1
      then (let lastMonth = getMonth now
            in if lastMonth = 0 then (getFullYear now - 1, 12) else (getFullYear now, lastMonth))
      else (let lastMonth = getMonth now
            in if lastMonth = 0 then (getFullYear now - 1, 12) else (getFullYear now, lastMonth)))"

text \<open>And as \<^verbatim>\<open>updateShop\<close> computes it.\<close>

definition lastPeriod_updateShop :: "jsdate \<Rightarrow> int \<times> int" where
  "lastPeriod_updateShop now =
     (let lastMonth = getMonth now
      in if lastMonth = 0 then (getFullYear now - 1, 12) else (getFullYear now, lastMonth))"

text \<open>
  One shop of the sweep. \<^verbatim>\<open>!shop.tenantId\<close> holds for a null tenant and for tenant 0.
\<close>

definition sweepShop :: "jsdate \<Rightarrow> shop \<Rightarrow> db \<Rightarrow> db" where
  "sweepShop now sh d =
     (case s_tenantId sh of
        None \<Rightarrow> d
      | Some tenantId \<Rightarrow>
          (case s_allocated_at sh of
             None \<Rightarrow> d
           | Some allocDate \<Rightarrow>
               if tenantId = 0 \<or> \<not> date_le allocDate now then d
               else accrualLoop (s_userId sh) tenantId (s_id sh) (s_monthlyRent sh)
                      (fst (lastPeriod now)) (snd (lastPeriod now))
                      (getFullYear allocDate) (getMonth allocDate + 1) d))"

definition createMissingRentPaymentsForAllocatedShops :: "jsdate \<Rightarrow> db \<Rightarrow> db" where
  "createMissingRentPaymentsForAllocatedShops now d = fold (sweepShop now) (shops d) d"

section \<open>Shops (server/storage.ts)\<close>

text \<open>
  An allocation date as a caller passes it: the empty string (falsy), another string
  with the date it parses to (none when it does not parse; a \<^verbatim>\<open>YYYY-MM-DD\<close> string is read
  as that day at midnight), or a \<^verbatim>\<open>Date\<close> object with its date (none when invalid).
\<close>

datatype date_input = EmptyString | StringValue "jsdate option" | DateObject "jsdate option"

definition parseAllocation :: "date_input \<Rightarrow> jsdate option" where
  "parseAllocation v = (case v of EmptyString \<Rightarrow> None | StringValue p \<Rightarrow> p | DateObject p \<Rightarrow> p)"

text \<open>A key of an update object: absent (or undefined), null, or a value.\<close>

datatype 'a field = Absent | Null | Value 'a

definition truthyDate :: "date_input field \<Rightarrow> bool" where
  "truthyDate f = (case f of Value EmptyString \<Rightarrow> False | Value _ \<Rightarrow> True | _ \<Rightarrow> False)"

definition truthyId :: "int field \<Rightarrow> bool" where
  "truthyId f = (case f of Value n \<Rightarrow> n \<noteq> 0 | _ \<Rightarrow> False)"

text \<open>The accrual that follows the insert in \<^verbatim>\<open>createShop\<close> and the update in
  \<^verbatim>\<open>updateShop\<close>: only for a shop with a tenant (not 0) allocated no later than now.\<close>

definition accrueAfterCreate :: "jsdate \<Rightarrow> shop \<Rightarrow> db \<Rightarrow> db" where
  "accrueAfterCreate now sh d =
     (case s_tenantId sh of
        None \<Rightarrow> d
      | Some tenantId \<Rightarrow>
          (case s_allocated_at sh of
             None \<Rightarrow> d
           | Some allocationDate \<Rightarrow>
               if tenantId \<noteq> 0 \<and> date_le allocationDate now
               then accrualLoop (s_userId sh) tenantId (s_id sh) (s_monthlyRent sh)
                      (fst (lastPeriod_createShop now)) (snd (lastPeriod_createShop now))
                      (getFullYear allocationDate) (getMonth allocationDate + 1) d
               else d))"

record insert_shop =
  is_userId :: int
  is_monthlyRent :: money
  is_tenantId :: "int field"
  is_allocated_at :: "date_input field"
  is_allocatedAt :: "date_input field"

definition createShop :: "jsdate \<Rightarrow> insert_shop \<Rightarrow> db \<Rightarrow> db" where
  "createShop now insertShop d =
     (let allocated_at =
            (if truthyDate (is_allocatedAt insertShop) \<and> \<not> truthyDate (is_allocated_at insertShop)
             then is_allocatedAt insertShop else is_allocated_at insertShop);
          parsed = (case allocated_at of Value v \<Rightarrow> parseAllocation v | _ \<Rightarrow> None);
          allocationDate =
            (if truthyId (is_tenantId insertShop) \<and> parsed = None then Some now else parsed);
          stored = (if truthyId (is_tenantId insertShop) then allocationDate else None);
          isOccupied =
            (if truthyId (is_tenantId insertShop)
             then date_le (case allocationDate of None \<Rightarrow> now | Some a \<Rightarrow> a) now
             else False);
          sh = \<lparr>s_id = shops_seq d, s_userId = is_userId insertShop,
                s_monthlyRent = is_monthlyRent insertShop, s_isOccupied = isOccupied,
                s_tenantId = (case is_tenantId insertShop of Value t \<Rightarrow> Some t | _ \<Rightarrow> None),
                s_allocated_at = stored\<rparr>
      in accrueAfterCreate now sh (d\<lparr>shops := shops d @ [sh], shops_seq := shops_seq d + 1\<rparr>))"

text \<open>
  \<^verbatim>\<open>updateShop(id, userId, updates)\<close>. The allocation date of the update object after
  the source has normalised it: key absent, null, a date, or the empty string left as it
  came (which the timestamp column then rejects).
\<close>

record shop_updates =
  up_monthlyRent :: "money option"
  up_tenantId :: "int field"
  up_allocated_at :: "date_input field"
  up_allocatedAt :: "date_input field"
  up_isOccupied :: "bool option"

datatype alloc_update = KeepAlloc | NullAlloc | DateAlloc jsdate | EmptyStringAlloc

definition normaliseAllocation :: "jsdate \<Rightarrow> shop_updates \<Rightarrow> alloc_update \<times> bool option" where
  "normaliseAllocation now updates =
     (let a1 = (if truthyDate (up_allocatedAt updates) \<and> \<not> truthyDate (up_allocated_at updates)
                then up_allocatedAt updates else up_allocated_at updates);
          a2 = (case a1 of
                  Absent \<Rightarrow> KeepAlloc
                | Null \<Rightarrow> NullAlloc
                | Value EmptyString \<Rightarrow> EmptyStringAlloc
                | Value v \<Rightarrow> (case parseAllocation v of None \<Rightarrow> NullAlloc | Some dt \<Rightarrow> DateAlloc dt));
          a3 = (if truthyId (up_tenantId updates)
                then (case a2 of DateAlloc dt \<Rightarrow> DateAlloc dt | _ \<Rightarrow> DateAlloc now)
                else a2)
      in case up_tenantId updates of
           Absent \<Rightarrow> (NullAlloc, Some False)
         | Null \<Rightarrow> (NullAlloc, Some False)
         | Value n \<Rightarrow>
             if n \<noteq> 0
             then (a3, Some (date_le (case a3 of DateAlloc dt \<Rightarrow> dt | _ \<Rightarrow> now) now))
             else (a3, up_isOccupied updates))"

definition applyShopUpdates :: "shop_updates \<Rightarrow> alloc_update \<Rightarrow> bool option \<Rightarrow> shop \<Rightarrow> shop" where
  "applyShopUpdates updates alloc occupied sh =
     sh\<lparr>s_monthlyRent := (case up_monthlyRent updates of None \<Rightarrow> s_monthlyRent sh | Some r \<Rightarrow> r),
        s_tenantId := (case up_tenantId updates of
                         Absent \<Rightarrow> s_tenantId sh | Null \<Rightarrow> None | Value t \<Rightarrow> Some t),
        s_allocated_at := (case alloc of
                             KeepAlloc \<Rightarrow> s_allocated_at sh
                           | NullAlloc \<Rightarrow> None
                           | DateAlloc dt \<Rightarrow> Some dt
                           | EmptyStringAlloc \<Rightarrow> s_allocated_at sh),
        s_isOccupied := (case occupied of None \<Rightarrow> s_isOccupied sh | Some b \<Rightarrow> b)\<rparr>"

text \<open>Step 1 of the re-accrual: the periods of the tenant and shop before the allocation month go.\<close>

definition deleteRentBefore :: "int \<Rightarrow> int \<Rightarrow> int \<Rightarrow> jsdate \<Rightarrow> db \<Rightarrow> db" where
  "deleteRentBefore userId tenantId shopId allocationDate d =
     d\<lparr>rentPayments :=
         filter (\<lambda>r. \<not> (rp_userId r = userId \<and> rp_tenantId r = tenantId \<and> rp_shopId r = shopId \<and>
                        (rp_year r < getFullYear allocationDate \<or>
                         (rp_year r = getFullYear allocationDate \<and>
                          rp_month r < getMonth allocationDate + 1))))
                (rentPayments d)\<rparr>"

definition accrueAfterUpdate :: "jsdate \<Rightarrow> shop \<Rightarrow> db \<Rightarrow> db" where
  "accrueAfterUpdate now sh d =
     (case s_tenantId sh of
        None \<Rightarrow> d
      | Some tenantId \<Rightarrow>
          (case s_allocated_at sh of
             None \<Rightarrow> d
           | Some allocationDate \<Rightarrow>
               if tenantId \<noteq> 0 \<and> date_le allocationDate now
               then accrualLoop (s_userId sh) tenantId (s_id sh) (s_monthlyRent sh)
                      (fst (lastPeriod_updateShop now)) (snd (lastPeriod_updateShop now))
                      (getFullYear allocationDate) (getMonth allocationDate + 1)
                      (deleteRentBefore (s_userId sh) tenantId (s_id sh) allocationDate d)
               else d))"

text \<open>
  The guard \<^verbatim>\<open>'allocated_at' in updates || 'tenantId' in updates\<close> of the source always
  holds where it is evaluated: an update without a tenant key has just been given an
  \<^verbatim>\<open>allocated_at\<close> key. Reading \<^verbatim>\<open>shop.tenantId\<close> of no row throws.
\<close>

definition updateShop :: "jsdate \<Rightarrow> int \<Rightarrow> int \<Rightarrow> shop_updates \<Rightarrow> db \<Rightarrow> error + db" where
  "updateShop now shopId userId updates d =
     (case normaliseAllocation now updates of
        (alloc, occupied) \<Rightarrow>
          if alloc = EmptyStringAlloc then Inl InvalidColumnValue
          else
            (let hit = (\<lambda>sh. s_id sh = shopId \<and> s_userId sh = userId);
                 d1 = d\<lparr>shops := map (\<lambda>sh. if hit sh
                                              then applyShopUpdates updates alloc occupied sh
                                              else sh) (shops d)\<rparr>
             in case filter hit (shops d1) of
                  [] \<Rightarrow> Inl ShopRowUndefined
                | sh # _ \<Rightarrow> Inr (accrueAfterUpdate now sh d1)))"

section \<open>Vocabulary for the accrual claims\<close>

text \<open>The periods the accrual loop visits from (y, m), in order.\<close>

function periodsFrom :: "int \<Rightarrow> int \<Rightarrow> int \<Rightarrow> int \<Rightarrow> (int \<times> int) list" where
  "periodsFrom lastYear lastMonth y m =
     (if y < lastYear \<or> (y = lastYear \<and> m \<le> lastMonth)
      then (y, m) # (if m + 1 > 12 then periodsFrom lastYear lastMonth (y + 1) 1
                     else periodsFrom lastYear lastMonth y (m + 1))
      else [])"
  by pat_completeness auto
termination
  by (relation "measure (\<lambda>(lastYear, lastMonth, y, m).
         nat ((lastYear - y + 1) * 13 + 13 - min m 13))") auto

declare periodsFrom.simps [simp del]

text \<open>One pass of the loop body for the period (y, m).\<close>

definition ensurePeriod :: "int \<Rightarrow> int \<Rightarrow> int \<Rightarrow> money \<Rightarrow> int \<times> int \<Rightarrow> db \<Rightarrow> db" where
  "ensurePeriod userId tenantId shopId monthlyRent p d =
     (if selectRentPayments userId tenantId shopId (snd p) (fst p) d = []
      then insertPendingRent userId tenantId shopId (snd p) (fst p) monthlyRent d
      else d)"

text \<open>A freshly accrued record: nothing paid, the whole rent pending.\<close>

definition newPendingRent :: "int \<Rightarrow> int \<Rightarrow> int \<Rightarrow> int \<Rightarrow> int \<Rightarrow> int \<Rightarrow> money \<Rightarrow> rent_payment" where
  "newPendingRent i userId tenantId shopId m y monthlyRent =
     \<lparr>rp_id = i, rp_userId = userId, rp_tenantId = tenantId, rp_shopId = shopId,
      rp_month = m, rp_year = y, rp_amount = monthlyRent, rp_paidAmount = 0,
      rp_pendingAmount = monthlyRent, rp_status = ''pending'', rp_paymentDate = None,
      rp_notes = None\<rparr>"



text \<open>The calendar month before the one \<open>now\<close> lies in.\<close>

definition previousMonth :: "jsdate \<Rightarrow> int \<times> int" where
  "previousMonth now =
     (if getMonth now = 0 then (getFullYear now - 1, 12) else (getFullYear now, getMonth now))"

text \<open>The central invariant of a rent-period record.\<close>

definition ledger_ok :: "rent_payment \<Rightarrow> bool" where
  "ledger_ok r \<longleftrightarrow>
     rp_pendingAmount r = max (rp_amount r - rp_paidAmount r) 0 \<and>
     rp_status r = (if rp_pendingAmount r = 0 then ''paid'' else ''pending'')"

text \<open>Two shop rows that differ at most in what the accrual does not key on.\<close>

definition sameAllocation :: "shop \<Rightarrow> shop \<Rightarrow> bool" where
  "sameAllocation a b \<longleftrightarrow>
     s_id a = s_id b \<and> s_userId a = s_userId b \<and> s_tenantId a = s_tenantId b \<and>
     s_allocated_at a = s_allocated_at b"

text \<open>Every period the sweep would visit for the shop already has a record.\<close>

definition accrued :: "jsdate \<Rightarrow> shop \<Rightarrow> db \<Rightarrow> bool" where
  "accrued now sh d \<longleftrightarrow>
     (\<forall>t A. s_tenantId sh = Some t \<and> t \<noteq> 0 \<and> s_allocated_at sh = Some A \<and> date_le A now \<longrightarrow>
        (\<forall>p \<in> set (periodsFrom (fst (previousMonth now)) (snd (previousMonth now))
                      (getFullYear A) (getMonth A + 1)).
           selectRentPayments (s_userId sh) t (s_id sh) (snd p) (fst p) d \<noteq> []))"

section \<open>Balance mutator (server/storage.ts)\<close>

text \<open>
  A storage call returns \<open>Inr\<close> the store it leaves, or \<open>Inl\<close> what it threw. The calls of
  this section throw before their first write (and \<^verbatim>\<open>createTransaction\<close>,
  \<^verbatim>\<open>deleteTransaction\<close> and \<^verbatim>\<open>createTransfer\<close> run inside \<^verbatim>\<open>db.transaction\<close>), so
  after \<open>Inl\<close> the store is the one the call was given.
\<close>

definition selectAccount :: "int \<Rightarrow> db \<Rightarrow> bank_account list" where
  "selectAccount accountId d = filter (\<lambda>a. a_id a = accountId) (bankAccounts d)"

text \<open>\<^verbatim>\<open>Number(account.currentBalance)\<close> of the first row selected, when there is one.\<close>

definition balanceOf :: "int \<Rightarrow> db \<Rightarrow> money option" where
  "balanceOf accountId d =
     (case selectAccount accountId d of [] \<Rightarrow> None | account # _ \<Rightarrow> Some (a_currentBalance account))"


record insert_transaction =
  it_userId :: int
  it_accountId :: "int option"
  it_tenantId :: "int option"
  it_shopId :: "int option"
  it_amount :: money
  it_type :: string
  it_context :: string
  it_transactionDate :: "jsdate option"

definition insertTransactionRow :: "insert_transaction \<Rightarrow> db \<Rightarrow> db" where
  "insertTransactionRow ins d =
     d\<lparr>transactions := transactions d @
         [\<lparr>t_id = transactions_seq d, t_userId = it_userId ins, t_accountId = it_accountId ins,
           t_tenantId = it_tenantId ins, t_shopId = it_shopId ins, t_amount = it_amount ins,
           t_type = it_type ins, t_context = it_context ins,
           t_transactionDate = it_transactionDate ins\<rparr>],
       transactions_seq := transactions_seq d + 1\<rparr>"




record insert_transfer =
  itr_userId :: int
  itr_fromAccountId :: int
  itr_toAccountId :: int
  itr_amount :: money

definition insertTransferRow :: "insert_transfer \<Rightarrow> db \<Rightarrow> db" where
  "insertTransferRow ins d =
     d\<lparr>transfers := transfers d @
         [\<lparr>tr_id = transfers_seq d, tr_userId = itr_userId ins,
           tr_fromAccountId = itr_fromAccountId ins, tr_toAccountId = itr_toAccountId ins,
           tr_amount = itr_amount ins\<rparr>],
       transfers_seq := transfers_seq d + 1\<rparr>"








text \<open>
  For the round-trip claim: a store with one more transfer of \<open>x\<close> from account \<open>f\<close> to
  account \<open>t\<close> on its books: \<open>f\<close> holds \<open>x\<close> less, \<open>t\<close> holds \<open>x\<close> more, and the
  transfer row \<open>row\<close> is at the end of its table.
\<close>

definition shiftRow :: "int \<Rightarrow> int \<Rightarrow> money \<Rightarrow> bank_account \<Rightarrow> bank_account" where
  "shiftRow f t x a =
     a\<lparr>a_currentBalance := a_currentBalance a + (if a_id a = t then x else 0)
                                            - (if a_id a = f then x else 0)\<rparr>"


section \<open>The rent payment form (client, AddRentPaymentModal)\<close>











text \<open>What one pass of the recalculation writes to a row: the pending amount and status
  derived from the row \<open>p\<close> that was read, on the rows with \<open>p\<close>'s id.\<close>

definition rowFix :: "rent_payment \<Rightarrow> rent_payment \<Rightarrow> rent_payment" where
  "rowFix p r =
     (if rp_id r = rp_id p
      then r\<lparr>rp_pendingAmount := max (rp_amount p - rp_paidAmount p) 0,
             rp_status := (if max (rp_amount p - rp_paidAmount p) 0 = 0
                           then ''paid'' else ''pending'')\<rparr>
      else r)"

section \<open>Backup and restore (server/storage.ts, server/routes.ts)\<close>




definition deleteAllUserData :: "int \<Rightarrow> db \<Rightarrow> db" where
  "deleteAllUserData userId d =
     d\<lparr>rentPayments := filter (\<lambda>r. rp_userId r \<noteq> userId) (rentPayments d),
       transfers := filter (\<lambda>r. tr_userId r \<noteq> userId) (transfers d),
       transactions := filter (\<lambda>r. t_userId r \<noteq> userId) (transactions d),
       tenantShops := [],
       shops := filter (\<lambda>r. s_userId r \<noteq> userId) (shops d),
       buildings := filter (\<lambda>r. o_userId r \<noteq> userId) (buildings d),
       tenants := filter (\<lambda>r. o_userId r \<noteq> userId) (tenants d),
       categories := filter (\<lambda>r. o_userId r \<noteq> userId) (categories d),
       bankAccounts := filter (\<lambda>r. a_userId r \<noteq> userId) (bankAccounts d)\<rparr>"






















section \<open>Example data\<close>

definition empty_db :: db where
  "empty_db = \<lparr>bankAccounts = [], categories = [], buildings = [], tenants = [], shops = [],
     tenantShops = [], transactions = [], transfers = [], rentPayments = [],
     shops_seq = 1, transactions_seq = 1, transfers_seq = 1, rentPayments_seq = 1\<rparr>"



text \<open>10 April 2024, and a shop let to tenant 7 since 15 January 2024 at 10,000.00.\<close>

definition apr10 :: jsdate where
  "apr10 = \<lparr>getFullYear = 2024, getMonth = 3, getDate = 10, timeOfDay = 0\<rparr>"

definition jan15 :: jsdate where
  "jan15 = \<lparr>getFullYear = 2024, getMonth = 0, getDate = 15, timeOfDay = 0\<rparr>"

definition shop1 :: shop where
  "shop1 = \<lparr>s_id = 1, s_userId = 1, s_monthlyRent = 1000000, s_isOccupied = True,
     s_tenantId = Some 7, s_allocated_at = Some jan15\<rparr>"

definition shop_db :: db where
  "shop_db = empty_db\<lparr>shops := [shop1], shops_seq := 2\<rparr>"

text \<open>An update that changes the rent only.\<close>

definition rent_only :: shop_updates where
  "rent_only = \<lparr>up_monthlyRent = Some 1200000, up_tenantId = Absent, up_allocated_at = Absent,
     up_allocatedAt = Absent, up_isOccupied = None\<rparr>"

text \<open>The same shop after its rent was raised to 12,000.00.\<close>

definition shop1_raised :: shop where
  "shop1_raised = shop1\<lparr>s_monthlyRent := 1200000\<rparr>"




















section \<open>Payment reversal\<close>








section \<open>Shop updates\<close>

lemma normalise_no_tenant:
  "up_tenantId updates = Absent \<Longrightarrow> normaliseAllocation now updates = (NullAlloc, Some False)"
  by (simp add: normaliseAllocation_def Let_def)

lemma filter_shop_map:
  fixes f :: "shop \<Rightarrow> shop"
  assumes "\<And>sh. s_id (f sh) = s_id sh \<and> s_userId (f sh) = s_userId sh"
  shows "filter (\<lambda>sh. s_id sh = i \<and> s_userId sh = u)
           (map (\<lambda>sh. if s_id sh = i \<and> s_userId sh = u then f sh else sh) xs)
         = map f (filter (\<lambda>sh. s_id sh = i \<and> s_userId sh = u) xs)"
  using assms by (induction xs) auto

text \<open>
  C10. An update of an existing shop whose update object has no tenant key (one that
  changes the monthly rent only, say) stores a null allocation date and
  \<open>isOccupied = false\<close> and leaves the stored tenant as it was; no rent-period record
  is touched.
\<close>

theorem updateShop_without_tenant_key:
  assumes "up_tenantId updates = Absent"
      and "filter (\<lambda>sh. s_id sh = shopId \<and> s_userId sh = userId) (shops d) = sh # rest"
  shows "\<exists>d' sh' rest'. updateShop now shopId userId updates d = Inr d' \<and>
           filter (\<lambda>sh. s_id sh = shopId \<and> s_userId sh = userId) (shops d') = sh' # rest' \<and>
           s_allocated_at sh' = None \<and> s_isOccupied sh' = False \<and>
           s_tenantId sh' = s_tenantId sh \<and>
           s_monthlyRent sh' =
             (case up_monthlyRent updates of None \<Rightarrow> s_monthlyRent sh | Some r \<Rightarrow> r) \<and>
           rentPayments d' = rentPayments d"
proof -
  let ?f = "applyShopUpdates updates NullAlloc (Some False)"
  let ?d1 = "d\<lparr>shops := map (\<lambda>sh. if s_id sh = shopId \<and> s_userId sh = userId
                                   then ?f sh else sh) (shops d)\<rparr>"
  have keys: "\<And>sh. s_id (?f sh) = s_id sh \<and> s_userId (?f sh) = s_userId sh"
    by (simp add: applyShopUpdates_def)
  have sel: "filter (\<lambda>sh. s_id sh = shopId \<and> s_userId sh = userId) (shops ?d1)
               = ?f sh # map ?f rest"
    using filter_shop_map [of ?f shopId userId "shops d", OF keys] assms(2) by simp
  have noacc: "accrueAfterUpdate now (?f sh) ?d1 = ?d1"
    by (simp add: accrueAfterUpdate_def applyShopUpdates_def split: option.splits)
  have res: "updateShop now shopId userId updates d = Inr ?d1"
    using sel noacc by (simp add: updateShop_def normalise_no_tenant [OF assms(1)] Let_def)
  have f: "s_allocated_at (?f sh) = None" "s_isOccupied (?f sh) = False"
    "s_tenantId (?f sh) = s_tenantId sh"
    "s_monthlyRent (?f sh) =
       (case up_monthlyRent updates of None \<Rightarrow> s_monthlyRent sh | Some r \<Rightarrow> r)"
    using assms(1) by (simp_all add: applyShopUpdates_def)
  have rp: "rentPayments ?d1 = rentPayments d" by simp
  show ?thesis using res sel f rp by blast
qed

text \<open>
  The shop let to tenant 7 since January: raising its rent to 12,000.00 leaves tenant 7
  stored with no allocation date and the shop marked unoccupied.
\<close>

theorem updateShop_without_tenant_key_witness:
  "up_tenantId rent_only = Absent \<and>
   filter (\<lambda>sh. s_id sh = 1 \<and> s_userId sh = 1) (shops shop_db) = [shop1] \<and>
   (\<exists>d' sh' rest'. updateShop apr10 1 1 rent_only shop_db = Inr d' \<and>
      filter (\<lambda>sh. s_id sh = 1 \<and> s_userId sh = 1) (shops d') = sh' # rest' \<and>
      s_allocated_at sh' = None \<and> s_isOccupied sh' = False \<and> s_tenantId sh' = Some 7 \<and>
      s_monthlyRent sh' = 1200000)"
proof -
  have a: "up_tenantId rent_only = Absent"
    by (simp add: rent_only_def)
  have b: "filter (\<lambda>sh. s_id sh = 1 \<and> s_userId sh = 1) (shops shop_db) = [shop1]"
    by (simp add: shop_db_def shop1_def)
  have c: "s_tenantId shop1 = Some 7" "up_monthlyRent rent_only = Some 1200000"
    by (simp_all add: shop1_def rent_only_def)
  from updateShop_without_tenant_key [OF a b, of apr10]
  obtain d' sh' rest' where r: "updateShop apr10 1 1 rent_only shop_db = Inr d'"
    "filter (\<lambda>sh. s_id sh = 1 \<and> s_userId sh = 1) (shops d') = sh' # rest'"
    "s_allocated_at sh' = None" "s_isOccupied sh' = False" "s_tenantId sh' = s_tenantId shop1"
    "s_monthlyRent sh' =
       (case up_monthlyRent rent_only of None \<Rightarrow> s_monthlyRent shop1 | Some r \<Rightarrow> r)"
    by blast
  have "s_tenantId sh' = Some 7" "s_monthlyRent sh' = 1200000"
    using r(5,6) c by simp_all
  with a b r(1-4) show ?thesis by blast
qed

section \<open>Rent accrual\<close>

lemma loop_is_fold:
  "accrualLoop u t s rent ly lm y m d = fold (ensurePeriod u t s rent) (periodsFrom ly lm y m) d"
proof (induction u t s rent ly lm y m d rule: accrualLoop.induct)
  case (1 u t s rent ly lm y m d)
  note unf = accrualLoop.simps [of u t s rent ly lm y m d] periodsFrom.simps [of ly lm y m]
  show ?case
  proof (cases "y < ly \<or> (y = ly \<and> m \<le> lm)")
    case False
    then show ?thesis
      unfolding unf by auto
  next
    case True
    let ?d' = "ensurePeriod u t s rent (y, m) d"
    have d': "?d' = (if selectRentPayments u t s m y d = []
                      then insertPendingRent u t s m y rent d else d)"
      by (simp add: ensurePeriod_def)
    show ?thesis
    proof (cases "m + 1 > 12")
      case big: True
      have "accrualLoop u t s rent ly lm y m d = accrualLoop u t s rent ly lm (y + 1) 1 ?d'"
        using True big unfolding unf(1) d' by (auto simp: Let_def)
      also have "\<dots> = fold (ensurePeriod u t s rent) (periodsFrom ly lm (y + 1) 1) ?d'"
        using "1.IH"(1) [OF True _ big, of ?d'] d' by simp
      finally show ?thesis
        using True big unfolding unf(2) by auto
    next
      case small: False
      have "accrualLoop u t s rent ly lm y m d = accrualLoop u t s rent ly lm y (m + 1) ?d'"
        using True small unfolding unf(1) d' by (auto simp: Let_def)
      also have "\<dots> = fold (ensurePeriod u t s rent) (periodsFrom ly lm y (m + 1)) ?d'"
        using "1.IH"(2) [OF True _ small, of ?d'] d' by simp
      finally show ?thesis
        using True small unfolding unf(2) by auto
    qed
  qed
qed


lemma select_insert:
  "selectRentPayments u' t' s' m' y' (insertPendingRent u t s m y rent d) =
     selectRentPayments u' t' s' m' y' d @
       (if u' = u \<and> t' = t \<and> s' = s \<and> m' = m \<and> y' = y
        then [newPendingRent (rentPayments_seq d) u t s m y rent] else [])"
  by (simp add: selectRentPayments_def insertPendingRent_def newPendingRent_def)

lemma select_ensure:
  "selectRentPayments u' t' s' m' y' (ensurePeriod u t s rent (y, m) d) =
     (if u' = u \<and> t' = t \<and> s' = s \<and> m' = m \<and> y' = y \<and> selectRentPayments u t s m y d = []
      then [newPendingRent (rentPayments_seq d) u t s m y rent]
      else selectRentPayments u' t' s' m' y' d)"
  by (auto simp: ensurePeriod_def select_insert)

lemma fold_ensure_old:
  "\<not> (u' = u \<and> t' = t \<and> s' = s \<and> (y', m') \<in> set ps \<and> selectRentPayments u t s m' y' d = []) \<Longrightarrow>
   selectRentPayments u' t' s' m' y' (fold (ensurePeriod u t s rent) ps d) =
   selectRentPayments u' t' s' m' y' d"
proof (induction ps arbitrary: d)
  case Nil
  then show ?case by simp
next
  case (Cons p ps)
  obtain y m where p: "p = (y, m)" by (cases p)
  let ?d' = "ensurePeriod u t s rent (y, m) d"
  have keep: "selectRentPayments u' t' s' m' y' ?d' = selectRentPayments u' t' s' m' y' d"
    using Cons.prems unfolding p select_ensure by auto
  have "\<not> (u' = u \<and> t' = t \<and> s' = s \<and> (y', m') \<in> set ps \<and>
           selectRentPayments u t s m' y' ?d' = [])"
    using Cons.prems keep unfolding p by auto
  from Cons.IH [OF this] keep show ?case unfolding p by simp
qed

lemma fold_ensure_new:
  "(y', m') \<in> set ps \<Longrightarrow> selectRentPayments u t s m' y' d = [] \<Longrightarrow>
   \<exists>i. selectRentPayments u t s m' y' (fold (ensurePeriod u t s rent) ps d) =
        [newPendingRent i u t s m' y' rent]"
proof (induction ps arbitrary: d)
  case Nil
  then show ?case by simp
next
  case (Cons p ps)
  obtain y m where p: "p = (y, m)" by (cases p)
  let ?d' = "ensurePeriod u t s rent (y, m) d"
  show ?case
  proof (cases "(y', m') = (y, m)")
    case True
    have now: "selectRentPayments u t s m' y' ?d' = [newPendingRent (rentPayments_seq d) u t s m' y' rent]"
      using True Cons.prems(2) unfolding select_ensure by simp
    then have "\<not> (u = u \<and> t = t \<and> s = s \<and> (y', m') \<in> set ps \<and>
                 selectRentPayments u t s m' y' ?d' = [])"
      by simp
    from fold_ensure_old [OF this, of rent] now show ?thesis unfolding p by auto
  next
    case False
    then have "(y', m') \<in> set ps" using Cons.prems(1) p by auto
    moreover have "selectRentPayments u t s m' y' ?d' = []"
      using False Cons.prems(2) unfolding select_ensure by auto
    ultimately show ?thesis using Cons.IH [of ?d'] unfolding p by simp
  qed
qed

lemma fold_ensure_present:
  "\<forall>p \<in> set ps. selectRentPayments u t s (snd p) (fst p) d \<noteq> [] \<Longrightarrow>
   fold (ensurePeriod u t s rent) ps d = d"
  by (induction ps) (auto simp: ensurePeriod_def)

lemma fold_ensure_covers:
  "(y', m') \<in> set ps \<Longrightarrow>
   selectRentPayments u t s m' y' (fold (ensurePeriod u t s rent) ps d) \<noteq> []"
proof (cases "selectRentPayments u t s m' y' d = []")
  case True
  assume "(y', m') \<in> set ps"
  from fold_ensure_new [OF this True, of rent] show ?thesis by auto
next
  case False
  then have "\<not> (u = u \<and> t = t \<and> s = s \<and> (y', m') \<in> set ps \<and>
                selectRentPayments u t s m' y' d = [])"
    by simp
  from fold_ensure_old [OF this, of rent] False show ?thesis by simp
qed

lemma last_period_is_previous_month:
  "lastPeriod now = previousMonth now" "lastPeriod_createShop now = previousMonth now"
  "lastPeriod_updateShop now = previousMonth now"
  by (simp_all add: lastPeriod_def lastPeriod_createShop_def lastPeriod_updateShop_def
        previousMonth_def Let_def)

lemma sweepShop_fold:
  assumes "s_tenantId sh = Some t" "t \<noteq> 0" "s_allocated_at sh = Some A" "date_le A now"
  shows "sweepShop now sh d =
           fold (ensurePeriod (s_userId sh) t (s_id sh) (s_monthlyRent sh))
             (periodsFrom (fst (previousMonth now)) (snd (previousMonth now))
                (getFullYear A) (getMonth A + 1)) d"
  using assms by (simp add: sweepShop_def loop_is_fold last_period_is_previous_month)

lemma sweepShop_skip:
  "\<not> (\<exists>t A. s_tenantId sh = Some t \<and> t \<noteq> 0 \<and> s_allocated_at sh = Some A \<and> date_le A now) \<Longrightarrow>
   sweepShop now sh d = d"
  by (auto simp: sweepShop_def split: option.splits)

lemma accrueAfterCreate_is_sweepShop: "accrueAfterCreate now sh d = sweepShop now sh d"
  by (auto simp: accrueAfterCreate_def sweepShop_def last_period_is_previous_month
        split: option.splits)


lemma periods_example: "periodsFrom 2024 3 2024 1 = [(2024, 1), (2024, 2), (2024, 3)]"
  by (simp add: periodsFrom.simps)

lemma scenario_A:
  "rentPayments (createMissingRentPaymentsForAllocatedShops apr10 shop_db) =
     [newPendingRent 1 1 7 1 1 2024 1000000, newPendingRent 2 1 7 1 2 2024 1000000,
      newPendingRent 3 1 7 1 3 2024 1000000]"
  by (simp add: createMissingRentPaymentsForAllocatedShops_def shop_db_def shop1_def
      sweepShop_def apr10_def jan15_def date_le_def lastPeriod_def loop_is_fold periods_example
      ensurePeriod_def selectRentPayments_def insertPendingRent_def newPendingRent_def empty_db_def)


section \<open>Idempotence of the accrual\<close>

lemma ensure_appends:
  "\<exists>new. ensurePeriod u t s rent p d =
      d\<lparr>rentPayments := rentPayments d @ new,
        rentPayments_seq := rentPayments_seq d + int (length new)\<rparr>"
proof (cases "selectRentPayments u t s (snd p) (fst p) d = []")
  case True
  then have "ensurePeriod u t s rent p d =
      d\<lparr>rentPayments := rentPayments d @ [newPendingRent (rentPayments_seq d) u t s (snd p) (fst p) rent],
        rentPayments_seq := rentPayments_seq d + int (length [newPendingRent (rentPayments_seq d) u t s (snd p) (fst p) rent])\<rparr>"
    by (simp add: ensurePeriod_def insertPendingRent_def newPendingRent_def)
  then show ?thesis by blast
next
  case False
  then have "ensurePeriod u t s rent p d =
      d\<lparr>rentPayments := rentPayments d @ [], rentPayments_seq := rentPayments_seq d + int (length ([] :: rent_payment list))\<rparr>"
    by (simp add: ensurePeriod_def)
  then show ?thesis by blast
qed

lemma fold_ensure_appends:
  "\<exists>new. fold (ensurePeriod u t s rent) ps d =
      d\<lparr>rentPayments := rentPayments d @ new,
        rentPayments_seq := rentPayments_seq d + int (length new)\<rparr>"
proof (induction ps arbitrary: d)
  case Nil
  have "fold (ensurePeriod u t s rent) [] d =
      d\<lparr>rentPayments := rentPayments d @ [], rentPayments_seq := rentPayments_seq d + int (length ([] :: rent_payment list))\<rparr>"
    by simp
  then show ?case by blast
next
  case (Cons p ps)
  obtain n1 where 1: "ensurePeriod u t s rent p d =
      d\<lparr>rentPayments := rentPayments d @ n1, rentPayments_seq := rentPayments_seq d + int (length n1)\<rparr>"
    using ensure_appends by blast
  let ?d1 = "ensurePeriod u t s rent p d"
  obtain n2 where 2: "fold (ensurePeriod u t s rent) ps ?d1 =
      ?d1\<lparr>rentPayments := rentPayments ?d1 @ n2, rentPayments_seq := rentPayments_seq ?d1 + int (length n2)\<rparr>"
    using Cons.IH by blast
  have "fold (ensurePeriod u t s rent) (p # ps) d =
      d\<lparr>rentPayments := rentPayments d @ (n1 @ n2),
        rentPayments_seq := rentPayments_seq d + int (length (n1 @ n2))\<rparr>"
    using 2 by (simp add: 1 add.assoc)
  then show ?case by blast
qed

lemma sweepShop_appends:
  "\<exists>new. sweepShop now sh d =
      d\<lparr>rentPayments := rentPayments d @ new,
        rentPayments_seq := rentPayments_seq d + int (length new)\<rparr>"
proof (cases "\<exists>t A. s_tenantId sh = Some t \<and> t \<noteq> 0 \<and> s_allocated_at sh = Some A \<and> date_le A now")
  case True
  then obtain t A where "s_tenantId sh = Some t" "t \<noteq> 0" "s_allocated_at sh = Some A" "date_le A now"
    by blast
  from sweepShop_fold [OF this] fold_ensure_appends show ?thesis by simp
next
  case False
  then have "sweepShop now sh d =
      d\<lparr>rentPayments := rentPayments d @ [], rentPayments_seq := rentPayments_seq d + int (length ([] :: rent_payment list))\<rparr>"
    by (simp add: sweepShop_skip)
  then show ?thesis by blast
qed

lemma sweep_appends:
  "\<exists>new. fold (sweepShop now) shs d =
      d\<lparr>rentPayments := rentPayments d @ new,
        rentPayments_seq := rentPayments_seq d + int (length new)\<rparr>"
proof (induction shs arbitrary: d)
  case Nil
  have "fold (sweepShop now) [] d =
      d\<lparr>rentPayments := rentPayments d @ [], rentPayments_seq := rentPayments_seq d + int (length ([] :: rent_payment list))\<rparr>"
    by simp
  then show ?case by blast
next
  case (Cons sh shs)
  obtain n1 where 1: "sweepShop now sh d =
      d\<lparr>rentPayments := rentPayments d @ n1, rentPayments_seq := rentPayments_seq d + int (length n1)\<rparr>"
    using sweepShop_appends by blast
  let ?d1 = "sweepShop now sh d"
  obtain n2 where 2: "fold (sweepShop now) shs ?d1 =
      ?d1\<lparr>rentPayments := rentPayments ?d1 @ n2, rentPayments_seq := rentPayments_seq ?d1 + int (length n2)\<rparr>"
    using Cons.IH by blast
  have "fold (sweepShop now) (sh # shs) d =
      d\<lparr>rentPayments := rentPayments d @ (n1 @ n2),
        rentPayments_seq := rentPayments_seq d + int (length (n1 @ n2))\<rparr>"
    using 2 by (simp add: 1 add.assoc)
  then show ?case by blast
qed

lemma select_grows:
  "rentPayments d' = rentPayments d @ new \<Longrightarrow> selectRentPayments u t s m y d \<noteq> [] \<Longrightarrow>
   selectRentPayments u t s m y d' \<noteq> []"
  by (simp add: selectRentPayments_def)

lemma accrued_grows:
  "rentPayments d' = rentPayments d @ new \<Longrightarrow> accrued now sh d \<Longrightarrow> accrued now sh d'"
  unfolding accrued_def using select_grows by blast

lemma accrued_after_sweepShop: "accrued now sh (sweepShop now sh d)"
  unfolding accrued_def
proof (intro allI impI ballI)
  fix t A p
  assume a: "s_tenantId sh = Some t \<and> t \<noteq> 0 \<and> s_allocated_at sh = Some A \<and> date_le A now"
    and p: "p \<in> set (periodsFrom (fst (previousMonth now)) (snd (previousMonth now))
                      (getFullYear A) (getMonth A + 1))"
  from a have sw: "sweepShop now sh d =
           fold (ensurePeriod (s_userId sh) t (s_id sh) (s_monthlyRent sh))
             (periodsFrom (fst (previousMonth now)) (snd (previousMonth now))
                (getFullYear A) (getMonth A + 1)) d"
    using sweepShop_fold by blast
  from p have "(fst p, snd p) \<in> set (periodsFrom (fst (previousMonth now)) (snd (previousMonth now))
                      (getFullYear A) (getMonth A + 1))" by simp
  from fold_ensure_covers [OF this]
  show "selectRentPayments (s_userId sh) t (s_id sh) (snd p) (fst p) (sweepShop now sh d) \<noteq> []"
    unfolding sw .
qed

lemma accrued_after_sweep:
  "sh \<in> set shs \<Longrightarrow> accrued now sh (fold (sweepShop now) shs d)"
proof (induction shs arbitrary: d)
  case Nil
  then show ?case by simp
next
  case (Cons a shs)
  show ?case
  proof (cases "sh \<in> set shs")
    case True
    from Cons.IH [OF this] show ?thesis by simp
  next
    case False
    then have "sh = a" using Cons.prems by simp
    then have 1: "accrued now sh (sweepShop now a d)" using accrued_after_sweepShop by simp
    obtain new where "fold (sweepShop now) shs (sweepShop now a d) =
      (sweepShop now a d)\<lparr>rentPayments := rentPayments (sweepShop now a d) @ new,
        rentPayments_seq := rentPayments_seq (sweepShop now a d) + int (length new)\<rparr>"
      using sweep_appends by blast
    then have "rentPayments (fold (sweepShop now) shs (sweepShop now a d)) =
        rentPayments (sweepShop now a d) @ new" by simp
    from accrued_grows [OF this 1] show ?thesis by simp
  qed
qed

lemma accrued_cong:
  "sameAllocation sh sh' \<Longrightarrow> rentPayments d' = rentPayments d \<Longrightarrow> accrued now sh d \<Longrightarrow>
   accrued now sh' d'"
  by (simp add: accrued_def sameAllocation_def selectRentPayments_def)

lemma sweepShop_accrued: "accrued now sh d \<Longrightarrow> sweepShop now sh d = d"
proof (cases "\<exists>t A. s_tenantId sh = Some t \<and> t \<noteq> 0 \<and> s_allocated_at sh = Some A \<and> date_le A now")
  case True
  assume acc: "accrued now sh d"
  from True obtain t A where a: "s_tenantId sh = Some t" "t \<noteq> 0" "s_allocated_at sh = Some A"
    "date_le A now" by blast
  have "\<forall>p \<in> set (periodsFrom (fst (previousMonth now)) (snd (previousMonth now))
                      (getFullYear A) (getMonth A + 1)).
           selectRentPayments (s_userId sh) t (s_id sh) (snd p) (fst p) d \<noteq> []"
    using acc a unfolding accrued_def by blast
  from fold_ensure_present [OF this] show ?thesis
    unfolding sweepShop_fold [OF a] .
next
  case False
  then show ?thesis by (simp add: sweepShop_skip)
qed

lemma sweep_accrued:
  "\<forall>sh \<in> set shs. accrued now sh d \<Longrightarrow> fold (sweepShop now) shs d = d"
  by (induction shs) (simp_all add: sweepShop_accrued)

text \<open>
  C4. Running the sweep a second time, for the same now, changes nothing: no row is
  added and no field of any row changes, also when the shop rows have been replaced in
  between by rows with the same id, owner, tenant and allocation date but any monthly
  rent. The same holds shop by shop, for the sweep's step and for the accrual that follows
  \<^verbatim>\<open>createShop\<close>. A run only ever appends rows: the rows that were there stay as they
  were.
\<close>

theorem accrual_idempotent:
  "((\<forall>sh' \<in> set shops'. \<exists>sh \<in> set (shops d). sameAllocation sh sh') \<longrightarrow>
      createMissingRentPaymentsForAllocatedShops now
        ((createMissingRentPaymentsForAllocatedShops now d)\<lparr>shops := shops'\<rparr>) =
      (createMissingRentPaymentsForAllocatedShops now d)\<lparr>shops := shops'\<rparr>) \<and>
   (sameAllocation sh sh' \<longrightarrow>
      sweepShop now sh' (sweepShop now sh d) = sweepShop now sh d \<and>
      accrueAfterCreate now sh' (accrueAfterCreate now sh d) = accrueAfterCreate now sh d) \<and>
   (\<exists>new. rentPayments (createMissingRentPaymentsForAllocatedShops now d) = rentPayments d @ new)"
proof (intro conjI impI)
  let ?d1 = "createMissingRentPaymentsForAllocatedShops now d"
  assume same: "\<forall>sh' \<in> set shops'. \<exists>sh \<in> set (shops d). sameAllocation sh sh'"
  have "\<forall>sh' \<in> set shops'. accrued now sh' (?d1\<lparr>shops := shops'\<rparr>)"
  proof
    fix sh' assume "sh' \<in> set shops'"
    with same obtain sh where sh: "sh \<in> set (shops d)" "sameAllocation sh sh'" by blast
    have "accrued now sh ?d1"
      unfolding createMissingRentPaymentsForAllocatedShops_def
      using accrued_after_sweep [OF sh(1)] .
    then show "accrued now sh' (?d1\<lparr>shops := shops'\<rparr>)"
      using accrued_cong [OF sh(2), of "?d1\<lparr>shops := shops'\<rparr>" ?d1 now] by simp
  qed
  from sweep_accrued [OF this]
  show "createMissingRentPaymentsForAllocatedShops now (?d1\<lparr>shops := shops'\<rparr>) = ?d1\<lparr>shops := shops'\<rparr>"
    by (simp add: createMissingRentPaymentsForAllocatedShops_def)
next
  assume same: "sameAllocation sh sh'"
  have "accrued now sh' (sweepShop now sh d)"
    using accrued_cong [OF same refl accrued_after_sweepShop] .
  then show "sweepShop now sh' (sweepShop now sh d) = sweepShop now sh d"
    by (rule sweepShop_accrued)
  then show "accrueAfterCreate now sh' (accrueAfterCreate now sh d) = accrueAfterCreate now sh d"
    by (simp add: accrueAfterCreate_is_sweepShop)
next
  obtain new where "createMissingRentPaymentsForAllocatedShops now d =
      d\<lparr>rentPayments := rentPayments d @ new,
        rentPayments_seq := rentPayments_seq d + int (length new)\<rparr>"
    unfolding createMissingRentPaymentsForAllocatedShops_def using sweep_appends by blast
  then have "rentPayments (createMissingRentPaymentsForAllocatedShops now d) = rentPayments d @ new"
    by simp
  then show "\<exists>new. rentPayments (createMissingRentPaymentsForAllocatedShops now d) = rentPayments d @ new"
    by blast
qed

text \<open>
  Scenario A run twice, the rent raised to 12,000.00 between the runs: the second run
  returns the store it was given, whose three records still carry 10,000.00.
\<close>

theorem accrual_idempotent_witness:
  "sameAllocation shop1 shop1_raised \<and>
   list_all (\<lambda>sh'. list_ex (\<lambda>sh. sameAllocation sh sh') (shops shop_db)) [shop1_raised] \<and>
   createMissingRentPaymentsForAllocatedShops apr10
     ((createMissingRentPaymentsForAllocatedShops apr10 shop_db)\<lparr>shops := [shop1_raised]\<rparr>) =
   (createMissingRentPaymentsForAllocatedShops apr10 shop_db)\<lparr>shops := [shop1_raised]\<rparr> \<and>
   sweepShop apr10 shop1_raised (sweepShop apr10 shop1 shop_db) = sweepShop apr10 shop1 shop_db \<and>
   map rp_amount (rentPayments (createMissingRentPaymentsForAllocatedShops apr10
     ((createMissingRentPaymentsForAllocatedShops apr10 shop_db)\<lparr>shops := [shop1_raised]\<rparr>))) =
   [1000000, 1000000, 1000000]"
proof -
  have same: "sameAllocation shop1 shop1_raised"
    by (simp add: sameAllocation_def shop1_raised_def)
  have all: "\<forall>sh' \<in> set [shop1_raised]. \<exists>sh \<in> set (shops shop_db). sameAllocation sh sh'"
    using same by (simp add: shop_db_def)
  note th = accrual_idempotent [where shops' = "[shop1_raised]" and d = shop_db and sh = shop1
      and sh' = shop1_raised and now = apr10]
  have 1: "createMissingRentPaymentsForAllocatedShops apr10
     ((createMissingRentPaymentsForAllocatedShops apr10 shop_db)\<lparr>shops := [shop1_raised]\<rparr>) =
   (createMissingRentPaymentsForAllocatedShops apr10 shop_db)\<lparr>shops := [shop1_raised]\<rparr>"
    using th all by blast
  have 2: "sweepShop apr10 shop1_raised (sweepShop apr10 shop1 shop_db) = sweepShop apr10 shop1 shop_db"
    using th same by blast
  have 3: "map rp_amount (rentPayments ((createMissingRentPaymentsForAllocatedShops apr10 shop_db)
             \<lparr>shops := [shop1_raised]\<rparr>)) = [1000000, 1000000, 1000000]"
    by (simp add: scenario_A newPendingRent_def)
  have 4: "list_all (\<lambda>sh'. list_ex (\<lambda>sh. sameAllocation sh sh') (shops shop_db)) [shop1_raised]"
    using same by (simp add: shop_db_def)
  show ?thesis
    using same 4 1 2 3 by (simp only: simp_thms)
qed

section \<open>Transactions and balances\<close>




lemma balanceOf_insertTransactionRow [simp]:
  "balanceOf b (insertTransactionRow ins d) = balanceOf b d"
  by (simp add: balanceOf_def selectAccount_def insertTransactionRow_def)

lemma balanceOf_transactions_update [simp]:
  "balanceOf b (d\<lparr>transactions := ts\<rparr>) = balanceOf b d"
  by (simp add: balanceOf_def selectAccount_def)





section \<open>Transfers\<close>

lemma balanceOf_insertTransferRow [simp]:
  "balanceOf b (insertTransferRow ins d) = balanceOf b d"
  by (simp add: balanceOf_def selectAccount_def insertTransferRow_def)

lemma balanceOf_transfers_update [simp]:
  "balanceOf b (d\<lparr>transfers := ts\<rparr>) = balanceOf b d"
  by (simp add: balanceOf_def selectAccount_def)








section \<open>Transfer round trip\<close>

lemma shiftRow_id [simp]: "a_id (shiftRow f t x a) = a_id a"
  by (simp add: shiftRow_def)















section \<open>Validation of rent payments\<close>




section \<open>The ledger invariant\<close>

lemma newPendingRent_ledger: "0 < rent \<Longrightarrow> ledger_ok (newPendingRent i u t s m y rent)"
  by (simp add: ledger_ok_def newPendingRent_def)











lemma rowFix_keeps [simp]:
  "rp_id (rowFix p r) = rp_id r" "rp_userId (rowFix p r) = rp_userId r"
  "rp_amount (rowFix p r) = rp_amount r" "rp_paidAmount (rowFix p r) = rp_paidAmount r"
  by (simp_all add: rowFix_def)

lemma fold_rowFix_keeps [simp]:
  "rp_id (fold rowFix us r) = rp_id r" "rp_userId (fold rowFix us r) = rp_userId r"
  "rp_amount (fold rowFix us r) = rp_amount r" "rp_paidAmount (fold rowFix us r) = rp_paidAmount r"
  by (induction us arbitrary: r) simp_all





section \<open>Restore and rollback\<close>

lemma wipe_twice [simp]:
  "deleteAllUserData u (deleteAllUserData u d) = deleteAllUserData u d"
  by (simp add: deleteAllUserData_def)


















lemma fold_preserves:
  assumes "\<And>a x. Q (f a x) = Q x"
  shows "Q (fold f as x) = Q x"
  by (induction as arbitrary: x) (simp_all add: assms)





lemma other_tables_kept [simp]:
  "bankAccounts (recalculateAllPendingRents u x) = bankAccounts x"
  "categories (recalculateAllPendingRents u x) = categories x"
  "buildings (recalculateAllPendingRents u x) = buildings x"
  "tenants (recalculateAllPendingRents u x) = tenants x"
  "shops (recalculateAllPendingRents u x) = shops x"
  "tenantShops (recalculateAllPendingRents u x) = tenantShops x"
  "transactions (recalculateAllPendingRents u x) = transactions x"
  "transfers (recalculateAllPendingRents u x) = transfers x"
proof -
  have g: "Q (recalculateGroup g x) = Q x"
    if "\<And>v i x. Q (setPending v i x) = Q x" for Q :: "db \<Rightarrow> 'a" and g x
  proof -
    obtain k payments amount where g: "g = (k, payments, amount)" by (cases g)
    show ?thesis
      unfolding g recalculateGroup_def prod.case Let_def
      by (rule fold_preserves) (rule that)
  qed
  have r: "Q (recalculateAllPendingRents u x) = Q x"
    if "\<And>v i x. Q (setPending v i x) = Q x" for Q :: "db \<Rightarrow> 'a"
    unfolding recalculateAllPendingRents_def
    by (rule fold_preserves) (rule g, rule that)
  show "bankAccounts (recalculateAllPendingRents u x) = bankAccounts x"
    by (rule r) (simp add: setPending_def)
  show "categories (recalculateAllPendingRents u x) = categories x"
    by (rule r) (simp add: setPending_def)
  show "buildings (recalculateAllPendingRents u x) = buildings x"
    by (rule r) (simp add: setPending_def)
  show "tenants (recalculateAllPendingRents u x) = tenants x"
    by (rule r) (simp add: setPending_def)
  show "shops (recalculateAllPendingRents u x) = shops x"
    by (rule r) (simp add: setPending_def)
  show "tenantShops (recalculateAllPendingRents u x) = tenantShops x"
    by (rule r) (simp add: setPending_def)
  show "transactions (recalculateAllPendingRents u x) = transactions x"
    by (rule r) (simp add: setPending_def)
  show "transfers (recalculateAllPendingRents u x) = transfers x"
    by (rule r) (simp add: setPending_def)
qed










end
